theory Spec2Isabelle
  imports Main "HOL-Library.Sublist" "HOL-Library.Char_ord" "HOL-Library.List_Lexorder"
begin

section \<open>Strings of the host language\<close>

text \<open>
  A JavaScript string is modelled as a \<^typ>\<open>string\<close>, one \<^typ>\<open>char\<close> per byte of
  its UTF-8 encoding. The built-in string operations the program calls are written out
  below for the ASCII range; bytes from 128 on pass through \<open>toLowerCase\<close> and
  \<open>trim\<close> unchanged.
\<close>

definition upperAZ :: string where
  "upperAZ = ''ABCDEFGHIJKLMNOPQRSTUVWXYZ''"

definition lowerAZ :: string where
  "lowerAZ = ''abcdefghijklmnopqrstuvwxyz''"

definition toLowerChar :: "char \<Rightarrow> char" where
  "toLowerChar c = (case map_of (zip upperAZ lowerAZ) c of Some l \<Rightarrow> l | None \<Rightarrow> c)"

text \<open>\<open>String.prototype.toLowerCase\<close>.\<close>

definition toLowerCase :: "string \<Rightarrow> string" where
  "toLowerCase s = map toLowerChar s"



text \<open>\<open>Array.prototype.join\<close> with a separator.\<close>

fun join :: "string \<Rightarrow> string list \<Rightarrow> string" where
  "join sep [] = []"
| "join sep [x] = x"
| "join sep (x # y # ys) = x @ sep @ join sep (y # ys)"

text \<open>\<open>String.prototype.includes\<close>: \<open>includes_str t s\<close> is \<open>t.includes(s)\<close>, a search
  for \<open>s\<close> at every position of \<open>t\<close>.\<close>

fun includes_str :: "string \<Rightarrow> string \<Rightarrow> bool" where
  "includes_str [] s = (s = [])"
| "includes_str (c # t) s = (prefix s (c # t) \<or> includes_str t s)"

section \<open>Data model\<close>

text \<open>
  One entry of \<open>hotels.json\<close>. The fields \<open>amenities\<close> and \<open>nearbyAttractions\<close> are
  options: \<open>None\<close> is the property missing from the JSON object (\<open>undefined\<close> when
  read). The text fields and the numbers are present in every record; the numbers are
  whole, as the data guidelines of the repository ask. Both zone labels are kept: the
  full variant reads \<open>region\<close>, the simplified variant reads \<open>macroZone\<close>.
\<close>

record hotel =
  hotel_id :: string
  name :: string
  location :: string
  region :: string
  macroZone :: string
  description :: string
  nightlyRate :: int
  rating :: nat
  rooms :: nat
  amenities :: "string list option"
  nearbyAttractions :: "string list option"
  image_url :: string

text \<open>\<open>this.filters\<close> of the full variant. The \<open>Set\<close> of required amenities is the list
  of its members in insertion order.\<close>

record filterConfig =
  f_search :: string
  f_region :: string
  f_maxPrice :: int
  f_amenities :: "string list"

text \<open>\<open>this.filters\<close> of the simplified variant.\<close>

record filtersS =
  f_macroZone :: string

text \<open>Exceptions the program can raise.\<close>

datatype error = TypeError | RangeError | HttpError | ParseError

section \<open>The filter predicate of the full variant\<close>

text \<open>The array joined into \<open>searchTerms\<close> in \<open>applyFilters\<close>:
  \<open>(hotel.nearbyAttractions || [])\<close> replaces a missing list by the empty one.\<close>

definition searchTerms :: "hotel \<Rightarrow> string" where
  "searchTerms h =
     join '' ''
       ([toLowerCase (name h), toLowerCase (location h), toLowerCase (region h),
         toLowerCase (description h)]
        @ map toLowerCase (case nearbyAttractions h of None \<Rightarrow> [] | Some as \<Rightarrow> as))"

text \<open>
  The callback of \<open>this.hotels.filter\<close> in \<open>applyFilters\<close> (the \<open>matches\<close> of the
  specification), with its four guarded returns in the order of the source. Reading
  \<open>hotel.amenities.includes\<close> on a record without \<open>amenities\<close> raises a TypeError; the
  callback reaches that read only when the first three checks let the record through
  and the required set is not empty.
\<close>

definition matches :: "hotel \<Rightarrow> filterConfig \<Rightarrow> error + bool" where
  "matches h f =
     (if f_search f \<noteq> [] \<and> \<not> includes_str (searchTerms h) (f_search f) then Inr False
      else if f_region f \<noteq> [] \<and> region h \<noteq> f_region f then Inr False
      else if nightlyRate h > f_maxPrice f then Inr False
      else if f_amenities f \<noteq> [] then
        (case amenities h of
           None \<Rightarrow> Inl TypeError
         | Some ams \<Rightarrow>
             if \<not> list_all (\<lambda>amenity. amenity \<in> set ams) (f_amenities f) then Inr False
             else Inr True)
      else Inr True)"


section \<open>The constraint families as the specification words them\<close>

text \<open>
  The four families of the composition rule, each on its own, and their conjunction. An
  empty search text or region is no constraint; the price bound is inclusive; the
  amenities family asks that the required set be contained in the record's amenities,
  a missing list counting as empty. The text-search family takes the searched text as
  \<open>searchTerms\<close> builds it; how that text is built is the subject of C3.
\<close>

definition amenitySet :: "hotel \<Rightarrow> string set" where
  "amenitySet h = (case amenities h of None \<Rightarrow> {} | Some ams \<Rightarrow> set ams)"

definition spec_search_ok :: "hotel \<Rightarrow> filterConfig \<Rightarrow> bool" where
  "spec_search_ok h f \<longleftrightarrow> f_search f = [] \<or> sublist (f_search f) (searchTerms h)"

definition spec_region_ok :: "hotel \<Rightarrow> filterConfig \<Rightarrow> bool" where
  "spec_region_ok h f \<longleftrightarrow> f_region f = [] \<or> region h = f_region f"

definition spec_price_ok :: "hotel \<Rightarrow> filterConfig \<Rightarrow> bool" where
  "spec_price_ok h f \<longleftrightarrow> nightlyRate h \<le> f_maxPrice f"

definition spec_amenities_ok :: "hotel \<Rightarrow> filterConfig \<Rightarrow> bool" where
  "spec_amenities_ok h f \<longleftrightarrow> set (f_amenities f) \<subseteq> amenitySet h"

definition spec_matches :: "hotel \<Rightarrow> filterConfig \<Rightarrow> bool" where
  "spec_matches h f \<longleftrightarrow>
     spec_search_ok h f \<and> spec_region_ok h f \<and> spec_price_ok h f \<and> spec_amenities_ok h f"


section \<open>Numbers and text in markup\<close>

text \<open>A number interpolated into a template literal: its decimal digits.\<close>

definition digitChar :: "nat \<Rightarrow> char" where
  "digitChar d = ''0123456789'' ! d"

fun natToString :: "nat \<Rightarrow> string" where
  "natToString n =
     (if n < 10 then [digitChar n] else natToString (n div 10) @ [digitChar (n mod 10)])"

declare natToString.simps [simp del]

text \<open>\<open>Number.prototype.toLocaleString\<close> of a whole number, for a host locale that
  groups digits in threes with commas (the page itself writes \<open>$2,500\<close>).
  \<open>groupThousands\<close> works on the reversed digits.\<close>

fun groupThousands :: "string \<Rightarrow> string" where
  "groupThousands (a # b # c # d # ds) = a # b # c # CHR '','' # groupThousands (d # ds)"
| "groupThousands ds = ds"

definition toLocaleString :: "int \<Rightarrow> string" where
  "toLocaleString i =
     (if i < 0 then ''-'' @ rev (groupThousands (rev (natToString (nat (- i)))))
      else rev (groupThousands (rev (natToString (nat i)))))"

text \<open>
  \<open>escapeHtml\<close> assigns the text to \<open>textContent\<close> of a fresh \<open>div\<close> and reads
  \<open>innerHTML\<close> back. The serialisation of a text node replaces \<open>&\<close>, \<open><\<close>, \<open>>\<close>
  and the no-break space (bytes C2 A0) by character references; quotes stay as they are.
\<close>

fun escapeHtml :: "string \<Rightarrow> string" where
  "escapeHtml [] = []"
| "escapeHtml (c # cs) =
     (if c = CHR ''&'' then ''&amp;'' @ escapeHtml cs
      else if c = CHR ''<'' then ''&lt;'' @ escapeHtml cs
      else if c = CHR ''>'' then ''&gt;'' @ escapeHtml cs
      else (case cs of
              d # ds \<Rightarrow>
                if c = CHR 0xC2 \<and> d = CHR 0xA0 then ''&nbsp;'' @ escapeHtml ds
                else c # escapeHtml cs
            | [] \<Rightarrow> [c]))"

text \<open>\<open>encodeURIComponent\<close>: every byte outside the unreserved set becomes \<open>%XX\<close>.\<close>

definition unreserved :: string where
  "unreserved = upperAZ @ lowerAZ @ ''0123456789'' @ ''-_.!~*()'' @ [CHR 0x27]"

definition hexDigit :: "nat \<Rightarrow> char" where
  "hexDigit d = ''0123456789ABCDEF'' ! d"

definition encodeURIComponent :: "string \<Rightarrow> string" where
  "encodeURIComponent s =
     concat (map (\<lambda>c. if c \<in> set unreserved then [c]
                        else [CHR ''%'', hexDigit (of_char c div 16), hexDigit (of_char c mod 16)]) s)"

definition toUpperChar :: "char \<Rightarrow> char" where
  "toUpperChar c = (case map_of (zip lowerAZ upperAZ) c of Some u \<Rightarrow> u | None \<Rightarrow> c)"

text \<open>\<open>String.prototype.split\<close> at a one-character separator.\<close>

fun splitOn :: "char \<Rightarrow> string \<Rightarrow> string list" where
  "splitOn sep [] = [[]]"
| "splitOn sep (c # cs) =
     (if c = sep then [] # splitOn sep cs
      else (case splitOn sep cs of w # ws \<Rightarrow> (c # w) # ws | [] \<Rightarrow> [[c]]))"

section \<open>Cards of the full variant\<close>

definition amenityTranslations :: "(string \<times> string) list" where
  "amenityTranslations =
     [(''spa'', ''Spa''),
      (''restaurant'', ''Restaurante''),
      (''wifi'', ''WiFi''),
      (''pool'', ''Piscina''),
      (''fitness'', ''Gimnasio''),
      (''concierge'', ''Concierge''),
      (''room-service'', ''Servicio a la habitaci'' @ [CHR 0xC3, CHR 0xB3] @ ''n''),
      (''excursions'', ''Excursiones''),
      (''hiking'', ''Senderismo''),
      (''wildlife-watching'', ''Observaci'' @ [CHR 0xC3, CHR 0xB3] @ ''n de fauna''),
      (''eco-tours'', ''Ecoturismo''),
      (''hot-springs'', ''Termas''),
      (''wine-tasting'', ''Cata de vinos''),
      (''art-gallery'', ''Galer'' @ [CHR 0xC3, CHR 0xAD] @ ''a de arte''),
      (''vineyard-tours'', ''Tours de vi'' @ [CHR 0xC3, CHR 0xB1] @ ''edos''),
      (''private-guide'', ''Gu'' @ [CHR 0xC3, CHR 0xAD] @ ''a privado''),
      (''4wd-vehicle'', ''Veh'' @ [CHR 0xC3, CHR 0xAD] @ ''culo 4x4''),
      (''observatory'', ''Observatorio''),
      (''astronomy-tours'', ''Tours astron'' @ [CHR 0xC3, CHR 0xB3] @ ''micos''),
      (''library'', ''Biblioteca''),
      (''uma-bar'', ''Bar Uma''),
      (''horseback-riding'', ''Cabalgatas''),
      (''kayaking'', ''Kayak''),
      (''bird-watching'', ''Observaci'' @ [CHR 0xC3, CHR 0xB3] @ ''n de aves''),
      (''local-culture'', ''Cultura local''),
      (''boat-tours'', ''Tours en bote''),
      (''lake-activities'', ''Actividades lacustres''),
      (''volcano-views'', ''Vistas a volcanes'')]"

text \<open>\<open>word.charAt(0).toUpperCase() + word.slice(1)\<close>.\<close>

definition capitalize :: "string \<Rightarrow> string" where
  "capitalize word = (case word of [] \<Rightarrow> [] | c # cs \<Rightarrow> toUpperChar c # cs)"

definition formatAmenityName :: "string \<Rightarrow> string" where
  "formatAmenityName amenity =
     (case map_of amenityTranslations amenity of
        Some t \<Rightarrow> t
      | None \<Rightarrow> join '' '' (map capitalize (splitOn (CHR ''-'') amenity)))"

definition stars :: "hotel \<Rightarrow> string" where
  "stars h =
     concat (replicate (rating h) [CHR 0xE2, CHR 0x98, CHR 0x85])
     @ concat (replicate (5 - rating h) [CHR 0xE2, CHR 0x98, CHR 0x86])"

definition ratingText :: "hotel \<Rightarrow> string" where
  "ratingText h = natToString (rating h) @ '' de 5 estrellas''"

definition amenityTag :: "string \<Rightarrow> string" where
  \<open>amenityTag amenity =
     ''<span class="amenity-tag" role="listitem">''
       @ escapeHtml (formatAmenityName amenity)
       @ ''</span>''\<close>

definition moreTag :: "string list \<Rightarrow> string" where
  \<open>moreTag ams =
     (if length ams > 5 then
       ''<span class="amenity-tag">+''
       @ natToString (length ams - 5)
       @ '' m'' @ [CHR 0xC3, CHR 0xA1] @ ''s</span>''
      else [])\<close>

definition attractionItem :: "string \<Rightarrow> string" where
  \<open>attractionItem attr =
     ''<li>''
       @ escapeHtml attr
       @ ''</li>''\<close>

definition attractionsBlock :: "hotel \<Rightarrow> string" where
  \<open>attractionsBlock h =
     (case nearbyAttractions h of
        None \<Rightarrow> []
      | Some attrs \<Rightarrow>
       ''\<newline>''
       @ ''                <div class="hotel-attractions">\<newline>''
       @ ''                    <h4>Lugares fant'' @ [CHR 0xC3, CHR 0xA1] @ ''sticos cerca:</h4>\<newline>''
       @ ''                    <ul>\<newline>''
       @ ''                        ''
       @ concat (map attractionItem attrs)
       @ ''\<newline>''
       @ ''                    </ul>\<newline>''
       @ ''                </div>\<newline>''
       @ ''                '')\<close>

text \<open>The template literal assigned to \<open>card.innerHTML\<close> in \<open>createHotelCard\<close> of the
  full variant, line by line, for a record whose amenities are \<open>ams\<close>.\<close>

definition cardMarkup :: "hotel \<Rightarrow> string list \<Rightarrow> string" where
  \<open>cardMarkup h ams =
       ''\<newline>''
       @ ''            <div class="hotel-image">\<newline>''
       @ ''                <img \<newline>''
       @ ''                    src="data:image/svg+xml,%3Csvg xmlns='http://www.w3.org/2000/svg' width='800' height='600'%3E%3Crect width='100%25' height='100%25' fill='%23f0f2f5'/%3E%3C/svg%3E"\<newline>''
       @ ''                    data-src="''
       @ image_url h
       @ ''" \<newline>''
       @ ''                    alt="''
       @ name h
       @ '' - ''
       @ location h
       @ ''"\<newline>''
       @ ''                    loading="lazy"\<newline>''
       @ ''                    width="800"\<newline>''
       @ ''                    height="600"\<newline>''
       @ ''                >\<newline>''
       @ ''                <div class="hotel-rating" aria-label="''
       @ ratingText h
       @ ''">\<newline>''
       @ ''                    <span aria-hidden="true">''
       @ stars h
       @ ''</span>\<newline>''
       @ ''                    <span class="visually-hidden">''
       @ ratingText h
       @ ''</span>\<newline>''
       @ ''                </div>\<newline>''
       @ ''            </div>\<newline>''
       @ ''            <div class="hotel-content">\<newline>''
       @ ''                <h3 id="hotel-name-''
       @ hotel_id h
       @ ''" class="hotel-name">''
       @ escapeHtml (name h)
       @ ''</h3>\<newline>''
       @ ''                <p class="hotel-location">\<newline>''
       @ ''                    <span aria-label="Ubicaci'' @ [CHR 0xC3, CHR 0xB3] @ ''n">'' @ [CHR 0xF0, CHR 0x9F, CHR 0x93, CHR 0x8D] @ ''</span>\<newline>''
       @ ''                    ''
       @ escapeHtml (location h)
       @ ''\<newline>''
       @ ''                </p>\<newline>''
       @ ''                <p class="hotel-description">''
       @ escapeHtml (description h)
       @ ''</p>\<newline>''
       @ ''                <div class="hotel-amenities" role="list" aria-label="Amenidades del hotel">\<newline>''
       @ ''                    ''
       @ concat (map amenityTag (take 5 ams))
       @ ''\<newline>''
       @ ''                    ''
       @ moreTag ams
       @ ''\<newline>''
       @ ''                </div>\<newline>''
       @ ''                ''
       @ attractionsBlock h
       @ ''\<newline>''
       @ ''                <div class="hotel-footer">\<newline>''
       @ ''                    <div class="hotel-price">\<newline>''
       @ ''                        $''
       @ toLocaleString (nightlyRate h)
       @ ''\<newline>''
       @ ''                        <span class="hotel-price-label">por noche</span>\<newline>''
       @ ''                    </div>\<newline>''
       @ ''                    <div class="hotel-rooms" aria-label="N'' @ [CHR 0xC3, CHR 0xBA] @ ''mero de habitaciones">\<newline>''
       @ ''                        ''
       @ natToString (rooms h)
       @ '' habitaciones\<newline>''
       @ ''                    </div>\<newline>''
       @ ''                </div>\<newline>''
       @ ''            </div>\<newline>''
       @ ''        ''\<close>

text \<open>
  \<open>createHotelCard\<close> of the full variant, as the markup of the card. A rating above 5
  makes \<open>repeat\<close> raise a RangeError (negative count), a record without amenities
  makes \<open>hotel.amenities.slice\<close> raise a TypeError. The second parameter of the source
  (the index) is not used there. The registration of the image with the observer is
  \<open>registerImage\<close> below.
\<close>

definition createHotelCard :: "hotel \<Rightarrow> error + string" where
  "createHotelCard h =
     (if rating h > 5 then Inl RangeError
      else (case amenities h of
              None \<Rightarrow> Inl TypeError
            | Some ams \<Rightarrow> Inr (cardMarkup h ams)))"

section \<open>Cards of the simplified variant\<close>

text \<open>The template literal of the simplified \<open>createHotelCard\<close>; \<open>substring(0, 100)\<close>
  keeps the first hundred units of the escaped description, bytes in this model.\<close>

definition createHotelCardS :: "hotel \<Rightarrow> string" where
  \<open>createHotelCardS h =
       ''\<newline>''
       @ ''            <div class="hotel-image">\<newline>''
       @ ''                <img src="data:image/svg+xml,%3Csvg xmlns='http://www.w3.org/2000/svg' width='800' height='600'%3E%3C/svg%3E" data-src="''
       @ image_url h
       @ ''" alt="''
       @ escapeHtml (name h)
       @ ''" loading="lazy">\<newline>''
       @ ''            </div>\<newline>''
       @ ''            <div class="hotel-content">\<newline>''
       @ ''                <h3 id="hotel-name-''
       @ hotel_id h
       @ ''" class="hotel-name">''
       @ escapeHtml (name h)
       @ ''</h3>\<newline>''
       @ ''                <p class="hotel-location">''
       @ escapeHtml (location h)
       @ ''</p>\<newline>''
       @ ''                <p class="hotel-description">''
       @ take 100 (escapeHtml (description h))
       @ ''...</p>\<newline>''
       @ ''                <div class="hotel-footer">\<newline>''
       @ ''                    <div class="hotel-price">\<newline>''
       @ ''                        $''
       @ toLocaleString (nightlyRate h)
       @ ''\<newline>''
       @ ''                        <span class="hotel-price-label">USD por noche</span>\<newline>''
       @ ''                    </div>\<newline>''
       @ ''                    <a href="mailto:info@boutique-me.cl?subject=Consulta de disponibilidad: ''
       @ encodeURIComponent (name h)
       @ ''&body=Hola, quisiera consultar la disponibilidad para el hotel ''
       @ encodeURIComponent (name h)
       @ ''." class="cta-button">Consultar disponibilidad</a>\<newline>''
       @ ''                </div>\<newline>''
       @ ''            </div>''\<close>

section \<open>The application state of the full variant\<close>

text \<open>
  The fields of \<open>HotelFinder\<close> that the filter and the renderer use, and the parts of
  the page they write: the text of \<open>#results-count\<close> and whether it carries
  \<open>role="alert"\<close>, the \<open>aria-hidden\<close> attributes of \<open>#loading\<close> and
  \<open>#empty-state\<close>, the cards of \<open>#hotels-grid\<close> (each by its \<open>innerHTML\<close>), the
  option values of the region selector, the checkbox values of the amenities
  container, the cards of \<open>#destinos-grid\<close>, and the texts handed to the live region
  (the timer that removes a live region after a second is left out).
\<close>

record finder =
  hotels :: "hotel list"
  filteredHotels :: "hotel list"
  filters :: filterConfig
  searchDebounceTimer :: "nat option"
  filterDebounceTimer :: "nat option"
  resultsCount :: string
  resultsCount_alert :: bool
  loading_hidden :: bool
  emptyState_hidden :: bool
  hotelsGrid :: "string list"
  regionOptions :: "string list"
  amenityOptions :: "string list"
  destinosGrid :: "string list"
  announced :: "string list"

text \<open>The constructor, on a page whose elements are in the state \<open>page\<close>.\<close>

definition constructor :: "finder \<Rightarrow> finder" where
  "constructor page =
     page\<lparr>hotels := [], filteredHotels := [],
          filters := \<lparr>f_search = [], f_region = [], f_maxPrice = 2500, f_amenities = []\<rparr>,
          searchDebounceTimer := None, filterDebounceTimer := None\<rparr>"

text \<open>An exception leaves the state as it is at the throw: a method returns the state
  and the exception, if any.\<close>

type_synonym 'a thrown = "'a \<times> error option"

text \<open>\<open>Array.prototype.filter\<close> and \<open>forEach\<close>/\<open>map\<close> with a callback that may
  raise: the first exception ends the loop.\<close>

fun filterE :: "('a \<Rightarrow> error + bool) \<Rightarrow> 'a list \<Rightarrow> error + 'a list" where
  "filterE p [] = Inr []"
| "filterE p (x # xs) =
     (case p x of
        Inl e \<Rightarrow> Inl e
      | Inr b \<Rightarrow>
          (case filterE p xs of
             Inl e \<Rightarrow> Inl e
           | Inr ys \<Rightarrow> Inr (if b then x # ys else ys)))"

fun mapE :: "('a \<Rightarrow> error + 'b) \<Rightarrow> 'a list \<Rightarrow> error + 'b list" where
  "mapE g [] = Inr []"
| "mapE g (x # xs) =
     (case g x of
        Inl e \<Rightarrow> Inl e
      | Inr y \<Rightarrow> (case mapE g xs of Inl e \<Rightarrow> Inl e | Inr ys \<Rightarrow> Inr (y # ys)))"

definition showLoading :: "bool \<Rightarrow> finder \<Rightarrow> finder" where
  "showLoading sh st = st\<lparr>loading_hidden := \<not> sh\<rparr>"

definition showEmptyState :: "bool \<Rightarrow> finder \<Rightarrow> finder" where
  "showEmptyState sh st = st\<lparr>emptyState_hidden := \<not> sh\<rparr>"

definition showError :: "string \<Rightarrow> finder \<Rightarrow> finder" where
  "showError message st = st\<lparr>resultsCount := message, resultsCount_alert := True\<rparr>"

definition announcement :: "nat \<Rightarrow> string" where
  "announcement count =
     (if count = 0 then ''No hay hoteles que coincidan con tus filtros actuales''
      else if count = 1 then ''Se encontr'' @ [CHR 0xC3, CHR 0xB3] @ '' 1 hotel que coincide con tus filtros''
      else ''Se encontraron '' @ natToString count @ '' hoteles que coinciden con tus filtros'')"

definition announceResults :: "nat \<Rightarrow> finder \<Rightarrow> finder" where
  "announceResults count st = st\<lparr>announced := announced st @ [announcement count]\<rparr>"

text \<open>The conditional expression \<open>countText\<close> of \<open>renderHotels\<close>.\<close>

definition countText :: "nat \<Rightarrow> string" where
  "countText count =
     (if count = 0 then ''No se encontraron hoteles''
      else if count = 1 then ''1 hotel encontrado''
      else natToString count @ '' hoteles encontrados'')"

text \<open>
  \<open>renderHotels\<close>: the count text first, then the empty state; with no hotel the grid
  is emptied and the method returns. Otherwise the cards are built into a fragment,
  and only when all are built the grid is replaced and the result announced.
\<close>

definition renderHotels :: "finder \<Rightarrow> finder thrown" where
  "renderHotels st =
     (let count = length (filteredHotels st);
          st1 = st\<lparr>resultsCount := countText count\<rparr>
      in if count = 0 then (showEmptyState True (st1\<lparr>hotelsGrid := []\<rparr>), None)
         else
           (let st2 = showEmptyState False st1
            in case mapE createHotelCard (filteredHotels st) of
                 Inl e \<Rightarrow> (st2, Some e)
               | Inr cards \<Rightarrow> (announceResults count (st2\<lparr>hotelsGrid := cards\<rparr>), None)))"

text \<open>\<open>applyFilters\<close>: when the callback raises, nothing is assigned and nothing is
  rendered.\<close>

definition applyFilters :: "finder \<Rightarrow> finder thrown" where
  "applyFilters st =
     (case filterE (\<lambda>hotel. matches hotel (filters st)) (hotels st) of
        Inl e \<Rightarrow> (st, Some e)
      | Inr fs \<Rightarrow> renderHotels (st\<lparr>filteredHotels := fs\<rparr>))"

text \<open>What \<open>fetch('hotels.json')\<close> and \<open>response.json()\<close> can give.\<close>

datatype fetched = NetworkFailure | ResponseNotOk | InvalidJson | Hotels "hotel list"

definition loadHotels :: "fetched \<Rightarrow> finder \<Rightarrow> finder thrown" where
  "loadHotels response st =
     (let st1 = showLoading True st
      in case response of
           NetworkFailure \<Rightarrow> (showLoading False st1, Some TypeError)
         | ResponseNotOk \<Rightarrow> (showLoading False st1, Some HttpError)
         | InvalidJson \<Rightarrow> (showLoading False st1, Some ParseError)
         | Hotels hs \<Rightarrow> (showLoading False (st1\<lparr>hotels := hs, filteredHotels := hs\<rparr>), None))"

text \<open>\<open>[...new Set(xs)].sort()\<close>: the distinct members in the default order of
  \<open>sort\<close>, the order of the code units.\<close>

definition sortedUnique :: "string list \<Rightarrow> string list" where
  "sortedUnique xs = sort (remdups xs)"

definition populateRegionFilter :: "finder \<Rightarrow> finder" where
  "populateRegionFilter st =
     st\<lparr>regionOptions := regionOptions st @ sortedUnique (map region (hotels st))\<rparr>"

definition populateAmenitiesFilter :: "finder \<Rightarrow> finder thrown" where
  "populateAmenitiesFilter st =
     (case mapE (\<lambda>hotel. case amenities hotel of None \<Rightarrow> Inl TypeError | Some ams \<Rightarrow> Inr ams)
             (hotels st) of
        Inl e \<Rightarrow> (st, Some e)
      | Inr amss \<Rightarrow> (st\<lparr>amenityOptions := amenityOptions st @ sortedUnique (concat amss)\<rparr>, None))"

definition defaultDestinoImage :: string where
  "defaultDestinoImage =
     ''https://images.unsplash.com/photo-1501785888041-af3ef285b470?w=800&h=600&fit=crop&crop=center&q=80''"

definition destinoCard :: "hotel list \<Rightarrow> string \<Rightarrow> string" where
  \<open>destinoCard hs r =
     (let regionHotels = filter (\<lambda>h. region h = r) hs;
          sampleImage =
            (case regionHotels of
               [] \<Rightarrow> defaultDestinoImage
             | h # _ \<Rightarrow> if image_url h = [] then defaultDestinoImage else image_url h)
      in
       ''\<newline>''
       @ ''                <img src="''
       @ sampleImage
       @ ''" alt="Vista de ''
       @ r
       @ ''" loading="lazy">\<newline>''
       @ ''                <h3>''
       @ escapeHtml r
       @ ''</h3>\<newline>''
       @ ''                <p>''
       @ natToString (length regionHotels)
       @ '' hoteles boutique</p>\<newline>''
       @ ''            '')\<close>

definition renderDestinosPopulares :: "finder \<Rightarrow> finder" where
  "renderDestinosPopulares st =
     st\<lparr>destinosGrid :=
          destinosGrid st @ map (destinoCard (hotels st)) (sortedUnique (map region (hotels st)))\<rparr>"

text \<open>
  \<open>init\<close> after the constructor: the load, then the two filter controls, the
  destinations and the first rendering, which is \<open>renderHotels\<close> and not
  \<open>applyFilters\<close>. Any exception ends in \<open>showError\<close>. (\<open>cacheElements\<close>,
  \<open>setupImageObserver\<close> and \<open>setupEventListeners\<close> write none of the fields above.)
\<close>

definition loadErrorMessage :: string where
  "loadErrorMessage =
     ''Error al cargar hoteles. Por favor recarga la p'' @ [CHR 0xC3, CHR 0xA1] @ ''gina.''"

definition init :: "fetched \<Rightarrow> finder \<Rightarrow> finder" where
  "init response st =
     (case loadHotels response st of
        (st1, Some e) \<Rightarrow> showError loadErrorMessage st1
      | (st1, None) \<Rightarrow>
          (case populateAmenitiesFilter (populateRegionFilter st1) of
             (st2, Some e) \<Rightarrow> showError loadErrorMessage st2
           | (st2, None) \<Rightarrow>
               (case renderHotels (renderDestinosPopulares st2) of
                  (st3, Some e) \<Rightarrow> showError loadErrorMessage st3
                | (st3, None) \<Rightarrow> st3)))"

text \<open>The listeners that change the filters at once: the region selector and the
  amenity checkboxes (\<open>Set.add\<close> and \<open>Set.delete\<close>).\<close>

definition onRegionChange :: "string \<Rightarrow> finder \<Rightarrow> finder thrown" where
  "onRegionChange v st = applyFilters (st\<lparr>filters := (filters st)\<lparr>f_region := v\<rparr>\<rparr>)"

definition onAmenityChange :: "string \<Rightarrow> bool \<Rightarrow> finder \<Rightarrow> finder thrown" where
  "onAmenityChange amenity checked st =
     applyFilters
       (st\<lparr>filters := (filters st)\<lparr>f_amenities :=
              (if checked then
                 (if amenity \<in> set (f_amenities (filters st)) then f_amenities (filters st)
                  else f_amenities (filters st) @ [amenity])
               else removeAll amenity (f_amenities (filters st)))\<rparr>\<rparr>)"

section \<open>The simplified variant\<close>

record finderS =
  s_hotels :: "hotel list"
  s_filteredHotels :: "hotel list"
  s_filters :: filtersS
  s_resultsCount :: string
  s_emptyState_hidden :: bool
  s_hotelsGrid :: "string list"

text \<open>The callback of \<open>this.hotels.filter\<close> in the simplified \<open>applyFilters\<close>.\<close>

definition matchesS :: "hotel \<Rightarrow> filtersS \<Rightarrow> bool" where
  "matchesS h f = (if f_macroZone f \<noteq> [] then macroZone h = f_macroZone f else True)"

definition renderHotelsS :: "finderS \<Rightarrow> finderS" where
  "renderHotelsS st =
     (let count = length (s_filteredHotels st);
          st1 = st\<lparr>s_resultsCount :=
                    natToString count @ '' ''
                    @ (if count = 1 then ''hotel encontrado'' else ''hoteles encontrados''),
                  s_hotelsGrid := []\<rparr>
      in if count = 0 then st1\<lparr>s_emptyState_hidden := False\<rparr>
         else st1\<lparr>s_emptyState_hidden := True,
                  s_hotelsGrid := map createHotelCardS (s_filteredHotels st)\<rparr>)"

definition applyFiltersS :: "finderS \<Rightarrow> finderS" where
  "applyFiltersS st =
     renderHotelsS
       (st\<lparr>s_filteredHotels := filter (\<lambda>hotel. matchesS hotel (s_filters st)) (s_hotels st)\<rparr>)"

section \<open>Debounced input\<close>

text \<open>
  The host's timers. \<open>setTimeout\<close> hands out a fresh identifier and queues the
  callback for the time \<open>clock + delay\<close>; \<open>clearTimeout\<close> removes the timer with the
  given identifier, if it is still queued, and does nothing for \<open>null\<close>. Time is
  counted in milliseconds. The two closures that the listeners pass to \<open>debounce\<close> are
  the two values of \<open>callback\<close>.
\<close>

datatype callback = SearchCallback | FilterCallback

record timer =
  timer_id :: nat
  timer_due :: nat
  timer_callback :: callback

text \<open>
  The page around the application: the value of \<open>#search-input\<close>, the text of
  \<open>#price-value\<close>, the clock and the queue of timers. \<open>applied\<close> is a trace, not a
  part of the program: every run of a debounced closure appends the filters that its
  call of \<open>applyFilters\<close> reads.
\<close>

record page =
  app :: finder
  searchInput_value :: string
  priceValue_text :: string
  clock :: nat
  nextTimerId :: nat
  pendingTimers :: "timer list"
  applied :: "filterConfig list"
















section \<open>Lazy loading of images\<close>

text \<open>
  An image placeholder of a card, with the fields that \<open>loadImage\<close> reads and writes:
  \<open>dataset.src\<close>, \<open>src\<close>, \<open>alt\<close>, the class \<open>loaded\<close> and the background set on
  failure. A placeholder is known by its position in \<open>images\<close>.
\<close>

record img =
  data_src :: string
  img_src :: string
  img_alt :: string
  img_loaded :: bool
  img_background :: bool

text \<open>
  \<open>hasObserver\<close> is \<open>'IntersectionObserver' in window\<close>; \<open>observing\<close> are the targets
  registered with \<open>this.imageObserver\<close>. The host keeps, for each target, the last
  \<open>isIntersecting\<close> it has delivered (\<open>reported\<close>). \<open>requests\<close> is the trace of the
  image fetches started (\<open>tempImg.src = img.dataset.src\<close>), by placeholder and URL.
\<close>

record lazy =
  images :: "img list"
  hasObserver :: bool
  observing :: "nat list"
  reported :: "nat \<Rightarrow> bool option"
  requests :: "(nat \<times> string) list"

definition setupImageObserver :: "bool \<Rightarrow> lazy" where
  "setupImageObserver available =
     \<lparr>images = [], hasObserver = available, observing = [], reported = (\<lambda>i. None),
      requests = []\<rparr>"

definition loadImage :: "nat \<Rightarrow> lazy \<Rightarrow> lazy" where
  "loadImage i s =
     (if \<not> i < length (images s) \<or> data_src (images s ! i) = [] then s
      else s\<lparr>requests := requests s @ [(i, data_src (images s ! i))]\<rparr>)"

text \<open>The handlers \<open>tempImg.onload\<close> and \<open>tempImg.onerror\<close> set in \<open>loadImage\<close>, for
  the placeholder \<open>i\<close> and the URL that was requested.\<close>

definition tempImg_onload :: "nat \<Rightarrow> string \<Rightarrow> lazy \<Rightarrow> lazy" where
  "tempImg_onload i url s =
     (if i < length (images s)
      then s\<lparr>images := (images s)[i := (images s ! i)\<lparr>img_src := url, img_loaded := True\<rparr>]\<rparr>
      else s)"

definition tempImg_onerror :: "nat \<Rightarrow> lazy \<Rightarrow> lazy" where
  "tempImg_onerror i s =
     (if i < length (images s)
      then s\<lparr>images := (images s)[i := (images s ! i)
                \<lparr>img_alt := img_alt (images s ! i) @ '' (Imagen no disponible)'',
                 img_background := True\<rparr>]\<rparr>
      else s)"

definition observe :: "nat \<Rightarrow> lazy \<Rightarrow> lazy" where
  "observe i s =
     (if i \<in> set (observing s) then s
      else s\<lparr>observing := observing s @ [i], reported := (reported s)(i := None)\<rparr>)"

definition unobserve :: "nat \<Rightarrow> lazy \<Rightarrow> lazy" where
  "unobserve i s = s\<lparr>observing := removeAll i (observing s)\<rparr>"

text \<open>The callback given to \<open>new IntersectionObserver\<close>, on the entries of one
  delivery (target and \<open>isIntersecting\<close>).\<close>

definition observerCallback :: "(nat \<times> bool) list \<Rightarrow> lazy \<Rightarrow> lazy" where
  "observerCallback entries s =
     fold (\<lambda>(target, isIntersecting) s'.
             if isIntersecting then unobserve target (loadImage target s') else s')
          entries s"

text \<open>The end of \<open>createHotelCard\<close>: the new placeholder is observed, or loaded at once
  where there is no observer.\<close>

definition registerImage :: "img \<Rightarrow> lazy \<Rightarrow> lazy" where
  "registerImage im s =
     (let i = length (images s); s' = s\<lparr>images := images s @ [im]\<rparr>
      in if hasObserver s then observe i s' else loadImage i s')"

text \<open>
  One frame of the host. \<open>inside i\<close> says whether placeholder \<open>i\<close> lies within the
  root margin in this frame. The host delivers an entry for every observed target whose
  \<open>isIntersecting\<close> differs from the last one delivered (a target observed since the
  last frame always gets one), and calls the callback when there is any entry.
\<close>

definition frame :: "(nat \<Rightarrow> bool) \<Rightarrow> lazy \<Rightarrow> lazy" where
  "frame inside s =
     (let entries = map (\<lambda>i. (i, inside i))
                      (filter (\<lambda>i. reported s i \<noteq> Some (inside i)) (observing s));
          s' = s\<lparr>reported := (\<lambda>i. if i \<in> set (map fst entries) then Some (inside i)
                                   else reported s i)\<rparr>
      in if entries = [] then s' else observerCallback entries s')"

datatype lazyEvent =
  NewCard img | Frame "nat \<Rightarrow> bool" | ImageLoaded nat string | ImageFailed nat

definition lazyStep :: "lazyEvent \<Rightarrow> lazy \<Rightarrow> lazy" where
  "lazyStep e s =
     (case e of
        NewCard im \<Rightarrow> registerImage im s
      | Frame inside \<Rightarrow> frame inside s
      | ImageLoaded i url \<Rightarrow> tempImg_onload i url s
      | ImageFailed i \<Rightarrow> tempImg_onerror i s)"

definition runLazy :: "lazyEvent list \<Rightarrow> lazy \<Rightarrow> lazy" where
  "runLazy es s = fold lazyStep es s"

text \<open>The fetches started for placeholder \<open>i\<close>, and whether a frame of a session had
  it within the margin.\<close>

definition requestsFor :: "nat \<Rightarrow> lazy \<Rightarrow> string list" where
  "requestsFor i s = map snd (filter (\<lambda>r. fst r = i) (requests s))"

definition everInside :: "nat \<Rightarrow> lazyEvent list \<Rightarrow> bool" where
  "everInside i es = list_ex (\<lambda>e. case e of Frame inside \<Rightarrow> inside i | _ \<Rightarrow> False) es"

text \<open>What holds of the loader in every state it reaches with an observer: a target is
  observed once, is a placeholder of the page, and has not yet been delivered as
  intersecting; every fetch is for a placeholder of the page.\<close>

definition lazyInv :: "lazy \<Rightarrow> bool" where
  "lazyInv s \<longleftrightarrow>
     hasObserver s \<and> distinct (observing s)
     \<and> list_all (\<lambda>j. j < length (images s) \<and> reported s j \<noteq> Some True) (observing s)
     \<and> list_all (\<lambda>r. fst r < length (images s)) (requests s)"

section \<open>Sample data\<close>

definition sampleHotel :: hotel where
  "sampleHotel =
     \<lparr>hotel_id = ''h1'', name = ''Casa Sur'', location = ''Santiago'', region = ''Centro'',
      macroZone = ''Centro'', description = ''Views of the Andes range'',
      nightlyRate = 300, rating = 4, rooms = 12,
      amenities = Some [''spa'', ''wifi''], nearbyAttractions = None,
      image_url = ''https://example.org/casa-sur.jpg''\<rparr>"

definition noFilters :: filterConfig where
  "noFilters = \<lparr>f_search = [], f_region = [], f_maxPrice = 2500, f_amenities = []\<rparr>"

definition hotel100 :: hotel where
  "hotel100 = sampleHotel\<lparr>hotel_id := ''h2'', name := ''Refugio'', nightlyRate := 100\<rparr>"

definition hotel500 :: hotel where
  "hotel500 = sampleHotel\<lparr>hotel_id := ''h3'', name := ''Mirador'', region := ''Sur'',
                 macroZone := ''Sur'', nightlyRate := 500\<rparr>"

definition hotel3000 :: hotel where
  "hotel3000 = sampleHotel\<lparr>hotel_id := ''h4'', name := ''Palacio'', nightlyRate := 3000\<rparr>"

definition norteHotel :: hotel where
  "norteHotel = sampleHotel\<lparr>hotel_id := ''h5'', name := ''Oasis'', region := ''Atacama'',
                  macroZone := ''Norte''\<rparr>"


definition xssHotel :: hotel where
  \<open>xssHotel = sampleHotel\<lparr>name := ''"><script>alert(1)</script>''\<rparr>\<close>

definition blankPage :: finder where
  "blankPage =
     \<lparr>hotels = [], filteredHotels = [], filters = noFilters,
      searchDebounceTimer = None, filterDebounceTimer = None,
      resultsCount = [], resultsCount_alert = False, loading_hidden = True,
      emptyState_hidden = True, hotelsGrid = [], regionOptions = [], amenityOptions = [],
      destinosGrid = [], announced = []\<rparr>"

definition priceFinder :: finder where
  "priceFinder =
     blankPage\<lparr>hotels := [hotel100, sampleHotel, hotel500],
               filters := \<lparr>f_search = [], f_region = [], f_maxPrice = 300, f_amenities = []\<rparr>\<rparr>"


definition sampleImg :: img where
  "sampleImg =
     \<lparr>data_src = ''https://example.org/casa-sur.jpg'', img_src = ''data:image/svg+xml,'',
      img_alt = ''Casa Sur - Santiago'', img_loaded = False, img_background = False\<rparr>"

definition emptyFinderS :: finderS where
  "emptyFinderS =
     \<lparr>s_hotels = [], s_filteredHotels = [], s_filters = \<lparr>f_macroZone = []\<rparr>,
      s_resultsCount = [], s_emptyState_hidden = True, s_hotelsGrid = []\<rparr>"

definition zoneFinderS :: finderS where
  "zoneFinderS = emptyFinderS\<lparr>s_hotels := [hotel100, sampleHotel, hotel500],
                              s_filters := \<lparr>f_macroZone = ''Sur''\<rparr>\<rparr>"

section \<open>Properties of the string operations\<close>

lemma includes_str_sublist: "includes_str t s \<longleftrightarrow> sublist s t"
proof (induction t)
  case Nil
  then show ?case by simp
next
  case (Cons c t)
  then show ?case by (simp add: sublist_Cons_right)
qed





lemma natToString_0: "natToString 0 = ''0''"
  by (simp add: digitChar_def natToString.simps [of 0])

lemma natToString_1: "natToString (Suc 0) = ''1''"
  by (simp add: digitChar_def natToString.simps [of "Suc 0"])

lemma natToString_2: "natToString (Suc (Suc 0)) = ''2''"
  by (simp add: digitChar_def natToString.simps [of "Suc (Suc 0)"])

section \<open>Loops with a callback that may raise\<close>

lemma filterE_total:
  assumes "\<forall>x\<in>set xs. \<exists>b. p x = Inr b"
  shows "filterE p xs = Inr (filter (\<lambda>x. p x = Inr True) xs)"
  using assms by (induction xs) auto

lemma mapE_total:
  assumes "\<forall>x\<in>set xs. \<exists>y. g x = Inr y"
  shows "mapE g xs = Inr (map (\<lambda>x. projr (g x)) xs)"
  using assms by (induction xs) auto

section \<open>The filter predicate\<close>

lemma matches_present:
  assumes "amenities h = Some ams"
  shows "matches h f = Inr (spec_matches h f)"
  using assms
  by (auto simp: matches_def spec_matches_def spec_search_ok_def spec_region_ok_def
      spec_price_ok_def spec_amenities_ok_def amenitySet_def includes_str_sublist
      list_all_iff)

lemma matches_total:
  "amenities h \<noteq> None \<or> f_amenities f = [] \<Longrightarrow> \<exists>b. matches h f = Inr b"
  by (auto simp: matches_def split: option.splits)

text \<open>
  C2. For a record that carries its amenities, the callback returns true exactly when
  the record passes all four constraint families (text search, region, price,
  amenities), and the amenities family passes exactly when the required set is
  contained in the record's amenities. A record with amenities spa and wifi matches
  the required sets {spa} and {spa, wifi} and does not match {spa, pool}, no other
  constraint being active.
\<close>

theorem matches_is_conjunction_of_families:
  assumes "amenities h = Some ams"
  shows "matches h f = Inr (spec_matches h f)
     \<and> (spec_amenities_ok h f \<longleftrightarrow> set (f_amenities f) \<subseteq> set ams)
     \<and> (ams = [''spa'', ''wifi''] \<and> nightlyRate h \<le> p \<longrightarrow>
          matches h \<lparr>f_search = [], f_region = [], f_maxPrice = p,
                     f_amenities = [''spa'']\<rparr> = Inr True
        \<and> matches h \<lparr>f_search = [], f_region = [], f_maxPrice = p,
                     f_amenities = [''spa'', ''wifi'']\<rparr> = Inr True
        \<and> matches h \<lparr>f_search = [], f_region = [], f_maxPrice = p,
                     f_amenities = [''spa'', ''pool'']\<rparr> = Inr False)"
proof -
  have a: "matches h g = Inr (spec_matches h g)" for g
    using assms by (rule matches_present)
  have b: "spec_amenities_ok h f \<longleftrightarrow> set (f_amenities f) \<subseteq> set ams"
    using assms by (simp add: spec_amenities_ok_def amenitySet_def)
  show ?thesis
    using assms
    by (simp add: a b spec_matches_def spec_search_ok_def spec_region_ok_def
        spec_price_ok_def spec_amenities_ok_def amenitySet_def)
qed

theorem matches_is_conjunction_of_families_witness:
  "matches sampleHotel noFilters = Inr True
   \<and> matches sampleHotel \<lparr>f_search = [], f_region = [], f_maxPrice = 2500,
                          f_amenities = [''spa'']\<rparr> = Inr True
   \<and> matches sampleHotel \<lparr>f_search = [], f_region = [], f_maxPrice = 2500,
                          f_amenities = [''spa'', ''wifi'']\<rparr> = Inr True
   \<and> matches sampleHotel \<lparr>f_search = [], f_region = [], f_maxPrice = 2500,
                          f_amenities = [''spa'', ''pool'']\<rparr> = Inr False"
  using matches_is_conjunction_of_families [of sampleHotel "[''spa'', ''wifi'']" noFilters 2500]
  by (simp add: sampleHotel_def noFilters_def spec_matches_def spec_search_ok_def
      spec_region_ok_def spec_price_ok_def spec_amenities_ok_def amenitySet_def)

subsection \<open>Text search\<close>




subsection \<open>Missing fields\<close>

text \<open>
  C5 as stated fails: with a required amenity, a record without \<open>amenities\<close> that
  passes the other checks makes the callback raise.
\<close>

theorem matches_raises_without_amenities:
  "matches (sampleHotel\<lparr>amenities := None\<rparr>)
      \<lparr>f_search = [], f_region = [], f_maxPrice = 2500, f_amenities = [''spa'']\<rparr>
   = Inl TypeError"
  by (simp add: matches_def sampleHotel_def)

lemma searchTerms_update:
  "searchTerms (h\<lparr>amenities := a\<rparr>) = searchTerms h"
  "searchTerms (h\<lparr>nearbyAttractions := None\<rparr>) = searchTerms (h\<lparr>nearbyAttractions := Some []\<rparr>)"
  by (simp_all add: searchTerms_def)

lemma matches_attractions_absent:
  "matches (h\<lparr>nearbyAttractions := None\<rparr>) f = matches (h\<lparr>nearbyAttractions := Some []\<rparr>) f"
  unfolding matches_def searchTerms_update(2) by simp

lemma matches_amenities_absent:
  "f_amenities f = [] \<Longrightarrow>
     matches (h\<lparr>amenities := None\<rparr>) f = matches (h\<lparr>amenities := Some []\<rparr>) f"
  unfolding matches_def searchTerms_update(1) by simp

lemma matches_raises_iff:
  "matches h f = Inl e \<longleftrightarrow>
     e = TypeError \<and> amenities h = None \<and> f_amenities f \<noteq> []
     \<and> spec_search_ok h f \<and> spec_region_ok h f \<and> spec_price_ok h f"
proof (cases "amenities h")
  case None
  then show ?thesis
    by (auto simp: matches_def spec_search_ok_def spec_region_ok_def spec_price_ok_def
        includes_str_sublist)
next
  case (Some ams)
  then show ?thesis
    by (simp add: matches_def)
qed

text \<open>
  C5, amended. The callback returns a boolean for every record that carries its
  amenities and, for any record, whenever the required amenity set is empty; a missing
  \<open>nearbyAttractions\<close> gives the same result as an empty one under every configuration;
  with an empty required set a missing \<open>amenities\<close> gives the same result as an empty
  one. The callback raises only a TypeError, and exactly for a record without amenities
  that passes text search, region and price while an amenity is required.
\<close>

theorem matches_total_when_amenities_present:
  "(amenities h \<noteq> None \<or> f_amenities f = [] \<longrightarrow> (\<exists>b. matches h f = Inr b))
   \<and> matches (h\<lparr>nearbyAttractions := None\<rparr>) f = matches (h\<lparr>nearbyAttractions := Some []\<rparr>) f
   \<and> (f_amenities f = [] \<longrightarrow>
        matches (h\<lparr>amenities := None\<rparr>) f = matches (h\<lparr>amenities := Some []\<rparr>) f)
   \<and> (matches h f = Inl e \<longleftrightarrow>
        e = TypeError \<and> amenities h = None \<and> f_amenities f \<noteq> []
        \<and> spec_search_ok h f \<and> spec_region_ok h f \<and> spec_price_ok h f)"
  using matches_total [of h f] matches_attractions_absent [of h f]
    matches_amenities_absent [of f h] matches_raises_iff [of h f e]
  by blast

theorem matches_total_when_amenities_present_witness:
  "(\<exists>b. matches (sampleHotel\<lparr>amenities := None\<rparr>) noFilters = Inr b)
   \<and> (\<exists>b. matches sampleHotel
            \<lparr>f_search = [], f_region = [], f_maxPrice = 2500, f_amenities = [''spa'']\<rparr> = Inr b)
   \<and> matches (sampleHotel\<lparr>amenities := None\<rparr>) noFilters
       = matches (sampleHotel\<lparr>amenities := Some []\<rparr>) noFilters"
proof -
  have e: "f_amenities noFilters = []"
    by (simp add: noFilters_def)
  have p: "amenities sampleHotel \<noteq> None"
    by (simp add: sampleHotel_def)
  from matches_total_when_amenities_present
    [of "sampleHotel\<lparr>amenities := None\<rparr>" noFilters TypeError] e
  have 1: "\<exists>b. matches (sampleHotel\<lparr>amenities := None\<rparr>) noFilters = Inr b"
    by blast
  from matches_total_when_amenities_present
    [of sampleHotel "\<lparr>f_search = [], f_region = [], f_maxPrice = 2500, f_amenities = [''spa'']\<rparr>"
      TypeError] p
  have 2: "\<exists>b. matches sampleHotel
            \<lparr>f_search = [], f_region = [], f_maxPrice = 2500, f_amenities = [''spa'']\<rparr> = Inr b"
    by blast
  from matches_total_when_amenities_present [of sampleHotel noFilters TypeError] e
  have 3: "matches (sampleHotel\<lparr>amenities := None\<rparr>) noFilters
       = matches (sampleHotel\<lparr>amenities := Some []\<rparr>) noFilters"
    by blast
  from 1 2 3 show ?thesis by blast
qed

section \<open>Filtering and rendering\<close>

lemma renderHotels_keeps:
  "hotels (fst (renderHotels st)) = hotels st"
  "filteredHotels (fst (renderHotels st)) = filteredHotels st"
  "filters (fst (renderHotels st)) = filters st"
  by (simp_all add: renderHotels_def Let_def showEmptyState_def announceResults_def
      split: sum.splits)

lemma renderHotels_header:
  "resultsCount (fst (renderHotels st)) = countText (length (filteredHotels st))"
  "emptyState_hidden (fst (renderHotels st)) = (length (filteredHotels st) \<noteq> 0)"
  by (simp_all add: renderHotels_def Let_def showEmptyState_def announceResults_def
      split: sum.splits)

lemma applyFilters_filtered:
  assumes "\<forall>h\<in>set (hotels st). amenities h \<noteq> None \<or> f_amenities (filters st) = []"
  shows "filteredHotels (fst (applyFilters st))
         = filter (\<lambda>h. matches h (filters st) = Inr True) (hotels st)"
    and "hotels (fst (applyFilters st)) = hotels st"
    and "filters (fst (applyFilters st)) = filters st"
    and "resultsCount (fst (applyFilters st))
         = countText (length (filteredHotels (fst (applyFilters st))))"
    and "emptyState_hidden (fst (applyFilters st))
         = (length (filteredHotels (fst (applyFilters st))) \<noteq> 0)"
proof -
  have "filterE (\<lambda>h. matches h (filters st)) (hotels st)
        = Inr (filter (\<lambda>h. matches h (filters st) = Inr True) (hotels st))"
  proof (rule filterE_total, rule ballI)
    fix h assume "h \<in> set (hotels st)"
    with assms have "amenities h \<noteq> None \<or> f_amenities (filters st) = []" by blast
    then show "\<exists>b. matches h (filters st) = Inr b" by (rule matches_total)
  qed
  then have a: "applyFilters st =
      renderHotels (st\<lparr>filteredHotels :=
                         filter (\<lambda>h. matches h (filters st) = Inr True) (hotels st)\<rparr>)"
    by (simp add: applyFilters_def)
  show "filteredHotels (fst (applyFilters st))
         = filter (\<lambda>h. matches h (filters st) = Inr True) (hotels st)"
    and "hotels (fst (applyFilters st)) = hotels st"
    and "filters (fst (applyFilters st)) = filters st"
    by (simp_all add: a renderHotels_keeps)
  show "resultsCount (fst (applyFilters st))
         = countText (length (filteredHotels (fst (applyFilters st))))"
    and "emptyState_hidden (fst (applyFilters st))
         = (length (filteredHotels (fst (applyFilters st))) \<noteq> 0)"
    by (simp_all add: a renderHotels_keeps renderHotels_header)
qed

lemma applyFiltersS_filtered:
  "s_filteredHotels (applyFiltersS st) = filter (\<lambda>h. matchesS h (s_filters st)) (s_hotels st)"
  "s_hotels (applyFiltersS st) = s_hotels st"
  by (simp_all add: applyFiltersS_def renderHotelsS_def Let_def)

lemma renderHotelsS_header:
  "s_resultsCount (renderHotelsS st) =
     natToString (length (s_filteredHotels st)) @
       (if length (s_filteredHotels st) = 1 then '' hotel encontrado''
        else '' hoteles encontrados'')"
  "s_emptyState_hidden (renderHotelsS st) = (length (s_filteredHotels st) \<noteq> 0)"
  "s_filteredHotels (renderHotelsS st) = s_filteredHotels st"
  by (simp_all add: renderHotelsS_def Let_def)



subsection \<open>The result count\<close>

text \<open>
  C4 as stated fails for the simplified variant: with no result its header is the plural
  phrase with the count 0, not a message of its own.
\<close>

theorem simplified_header_at_zero:
  "length (s_filteredHotels (applyFiltersS emptyFinderS)) = 0
   \<and> s_resultsCount (applyFiltersS emptyFinderS) = ''0 hoteles encontrados''
   \<and> s_resultsCount (applyFiltersS emptyFinderS) = natToString 0 @ '' hoteles encontrados''
   \<and> s_resultsCount (applyFiltersS emptyFinderS) \<noteq> countText 0"
  by (simp add: emptyFinderS_def applyFiltersS_def renderHotelsS_def Let_def natToString_0
      countText_def)

text \<open>
  C4, amended. After every rendering, and so after every recomputation that completes,
  the header is a function of the filtered count \<open>n\<close>. In the full variant it is
  \<open>No se encontraron hoteles\<close> for 0, \<open>1 hotel encontrado\<close> for 1 and the count followed
  by \<open>hoteles encontrados\<close> from 2 on. In the simplified variant it is
  \<open>1 hotel encontrado\<close> for 1 and the count followed by \<open>hoteles encontrados\<close> for every
  other count, 0 included. In both variants the empty state is shown exactly when the
  count is 0.
\<close>

theorem result_count_header:
  "(let n = length (filteredHotels st); st' = fst (renderHotels st)
    in filteredHotels st' = filteredHotels st
       \<and> resultsCount st' =
           (if n = 0 then ''No se encontraron hoteles''
            else if n = 1 then ''1 hotel encontrado''
            else natToString n @ '' hoteles encontrados'')
       \<and> emptyState_hidden st' = (n \<noteq> 0))
   \<and> ((\<forall>h\<in>set (hotels st). amenities h \<noteq> None) \<longrightarrow>
       (let st' = fst (applyFilters st); n = length (filteredHotels st')
        in resultsCount st' =
             (if n = 0 then ''No se encontraron hoteles''
              else if n = 1 then ''1 hotel encontrado''
              else natToString n @ '' hoteles encontrados'')
           \<and> emptyState_hidden st' = (n \<noteq> 0)))
   \<and> (let st' = applyFiltersS sst; n = length (s_filteredHotels st')
      in s_resultsCount st' =
           (if n = 1 then ''1 hotel encontrado'' else natToString n @ '' hoteles encontrados'')
         \<and> s_emptyState_hidden st' = (n \<noteq> 0))"
  by (simp add: Let_def renderHotels_keeps renderHotels_header applyFilters_filtered
      countText_def applyFiltersS_def renderHotelsS_header natToString_1)

theorem result_count_header_witness:
  "resultsCount (fst (applyFilters priceFinder)) = ''2 hoteles encontrados''
   \<and> emptyState_hidden (fst (applyFilters priceFinder))
   \<and> s_resultsCount (applyFiltersS zoneFinderS) = ''1 hotel encontrado''
   \<and> s_emptyState_hidden (applyFiltersS zoneFinderS)
   \<and> resultsCount (fst (renderHotels blankPage)) = ''No se encontraron hoteles''
   \<and> \<not> emptyState_hidden (fst (renderHotels blankPage))"
proof -
  have a: "filteredHotels (fst (applyFilters priceFinder)) = [hotel100, sampleHotel]"
    by (simp add: applyFilters_filtered priceFinder_def blankPage_def hotel100_def
        hotel500_def sampleHotel_def matches_def)
  have b: "s_filteredHotels (applyFiltersS zoneFinderS) = [hotel500]"
    by (simp add: applyFiltersS_filtered zoneFinderS_def emptyFinderS_def hotel100_def
        hotel500_def sampleHotel_def matchesS_def)
  have c: "\<forall>h\<in>set (hotels priceFinder). amenities h \<noteq> None"
    by (simp add: priceFinder_def blankPage_def hotel100_def hotel500_def sampleHotel_def)
  have d: "filteredHotels blankPage = []"
    by (simp add: blankPage_def)
  from result_count_header [of priceFinder zoneFinderS] result_count_header [of blankPage zoneFinderS]
  show ?thesis
    by (simp add: Let_def a b c d natToString_2)
qed

section \<open>The two variants\<close>

text \<open>
  C9 as stated fails: the simplified variant compares \<open>hotel.macroZone\<close>, the full
  variant compares \<open>hotel.region\<close>. For a record of region \<open>Atacama\<close> and zone \<open>Norte\<close>
  and the zone value \<open>Norte\<close>, the simplified filter keeps the record and the full
  filter, with nothing else constrained, drops it.
\<close>

theorem variants_read_different_zone_fields:
  "s_filteredHotels (applyFiltersS (emptyFinderS\<lparr>s_hotels := [norteHotel],
                                                s_filters := \<lparr>f_macroZone = ''Norte''\<rparr>\<rparr>))
   = [norteHotel]
   \<and> filteredHotels (fst (applyFilters
       (blankPage\<lparr>hotels := [norteHotel],
                  filters := \<lparr>f_search = [], f_region = ''Norte'', f_maxPrice = 2500,
                              f_amenities = []\<rparr>\<rparr>)))
     = []"
  by (simp add: applyFiltersS_filtered applyFilters_filtered norteHotel_def sampleHotel_def
      matchesS_def matches_def)

text \<open>
  C9, amended. On a record set whose records carry the same zone label under
  \<open>macroZone\<close> and under \<open>region\<close>, and with a maximum price that no nightly rate
  exceeds, the simplified \<open>applyFilters\<close> with zone \<open>z\<close> gives the same records in the
  same order as the full \<open>applyFilters\<close> with region \<open>z\<close>, empty search text and no
  required amenity; for the empty \<open>z\<close> both give the whole set.
\<close>

theorem simplified_filter_refines_full:
  assumes "\<forall>h\<in>set R. macroZone h = region h" and "\<forall>h\<in>set R. nightlyRate h \<le> p"
  shows "s_filteredHotels (applyFiltersS (sst\<lparr>s_hotels := R, s_filters := \<lparr>f_macroZone = z\<rparr>\<rparr>))
       = filteredHotels (fst (applyFilters
           (st\<lparr>hotels := R,
               filters := \<lparr>f_search = [], f_region = z, f_maxPrice = p, f_amenities = []\<rparr>\<rparr>)))
     \<and> (z = [] \<longrightarrow>
          s_filteredHotels (applyFiltersS (sst\<lparr>s_hotels := R, s_filters := \<lparr>f_macroZone = z\<rparr>\<rparr>))
          = R
        \<and> filteredHotels (fst (applyFilters
           (st\<lparr>hotels := R,
               filters := \<lparr>f_search = [], f_region = z, f_maxPrice = p, f_amenities = []\<rparr>\<rparr>)))
          = R)"
proof -
  have "filter (\<lambda>h. matchesS h \<lparr>f_macroZone = z\<rparr>) R
      = filter (\<lambda>h. matches h \<lparr>f_search = [], f_region = z, f_maxPrice = p,
                               f_amenities = []\<rparr> = Inr True) R"
    using assms by (intro filter_cong) (auto simp: matchesS_def matches_def)
  moreover have "z = [] \<Longrightarrow> filter (\<lambda>h. matchesS h \<lparr>f_macroZone = z\<rparr>) R = R"
    by (simp add: matchesS_def)
  ultimately show ?thesis
    by (cases "z = []") (simp_all add: applyFiltersS_filtered applyFilters_filtered)
qed

theorem simplified_filter_refines_full_witness:
  "s_filteredHotels (applyFiltersS (emptyFinderS\<lparr>s_hotels := [hotel100, sampleHotel, hotel500],
                                                s_filters := \<lparr>f_macroZone = ''Sur''\<rparr>\<rparr>))
   = filteredHotels (fst (applyFilters
       (blankPage\<lparr>hotels := [hotel100, sampleHotel, hotel500],
                  filters := \<lparr>f_search = [], f_region = ''Sur'', f_maxPrice = 2500,
                              f_amenities = []\<rparr>\<rparr>)))
   \<and> s_filteredHotels (applyFiltersS (emptyFinderS\<lparr>s_hotels := [hotel100, sampleHotel, hotel500],
                                                s_filters := \<lparr>f_macroZone = ''Sur''\<rparr>\<rparr>))
     = [hotel500]"
  using simplified_filter_refines_full
    [where R = "[hotel100, sampleHotel, hotel500]" and p = 2500 and sst = emptyFinderS
      and z = "''Sur''" and st = blankPage]
  by (simp add: applyFiltersS_filtered hotel100_def hotel500_def sampleHotel_def matchesS_def)

section \<open>The first rendering\<close>

lemma createHotelCard_ok:
  "amenities h \<noteq> None \<Longrightarrow> rating h \<le> 5 \<Longrightarrow> \<exists>m. createHotelCard h = Inr m"
  by (auto simp: createHotelCard_def)

lemma renderHotels_ok:
  assumes "\<forall>h\<in>set (filteredHotels st). amenities h \<noteq> None \<and> rating h \<le> 5"
  shows "snd (renderHotels st) = None"
    and "mapE createHotelCard (filteredHotels st) = Inr (hotelsGrid (fst (renderHotels st)))"
proof -
  have "\<forall>h\<in>set (filteredHotels st). \<exists>m. createHotelCard h = Inr m"
    using assms createHotelCard_ok by blast
  then have m: "mapE createHotelCard (filteredHotels st)
      = Inr (map (\<lambda>x. projr (createHotelCard x)) (filteredHotels st))"
    by (rule mapE_total)
  show "snd (renderHotels st) = None"
    by (simp add: renderHotels_def Let_def m)
  show "mapE createHotelCard (filteredHotels st) = Inr (hotelsGrid (fst (renderHotels st)))"
    by (cases "filteredHotels st = []")
      (simp_all add: renderHotels_def Let_def m showEmptyState_def announceResults_def)
qed

lemma populateAmenitiesFilter_ok:
  assumes "\<forall>h\<in>set (hotels st). amenities h \<noteq> None"
  shows "snd (populateAmenitiesFilter st) = None"
    and "hotels (fst (populateAmenitiesFilter st)) = hotels st"
    and "filteredHotels (fst (populateAmenitiesFilter st)) = filteredHotels st"
    and "filters (fst (populateAmenitiesFilter st)) = filters st"
proof -
  have "\<forall>h\<in>set (hotels st).
          \<exists>y. (case amenities h of None \<Rightarrow> Inl TypeError | Some ams \<Rightarrow> Inr ams) = Inr y"
    using assms by (auto split: option.splits)
  then have m: "mapE (\<lambda>hotel. case amenities hotel of None \<Rightarrow> Inl TypeError | Some ams \<Rightarrow> Inr ams)
         (hotels st)
     = Inr (map (\<lambda>x. projr (case amenities x of None \<Rightarrow> Inl TypeError | Some ams \<Rightarrow> Inr ams))
              (hotels st))"
    by (rule mapE_total)
  show "snd (populateAmenitiesFilter st) = None"
    and "hotels (fst (populateAmenitiesFilter st)) = hotels st"
    and "filteredHotels (fst (populateAmenitiesFilter st)) = filteredHotels st"
    and "filters (fst (populateAmenitiesFilter st)) = filters st"
    by (simp_all add: populateAmenitiesFilter_def m)
qed

lemma init_success:
  assumes "\<forall>h\<in>set R. amenities h \<noteq> None \<and> rating h \<le> 5"
  shows "init (Hotels R) st =
     fst (renderHotels (renderDestinosPopulares (fst (populateAmenitiesFilter
        (populateRegionFilter (fst (loadHotels (Hotels R) st)))))))"
proof -
  define st1 where "st1 = fst (loadHotels (Hotels R) st)"
  define st2 where "st2 = fst (populateAmenitiesFilter (populateRegionFilter st1))"
  define st3 where "st3 = fst (renderHotels (renderDestinosPopulares st2))"
  have l: "loadHotels (Hotels R) st = (st1, None)"
    by (simp add: st1_def loadHotels_def Let_def)
  have h1: "hotels (populateRegionFilter st1) = R"
    "filteredHotels (populateRegionFilter st1) = R"
    by (simp_all add: st1_def loadHotels_def Let_def populateRegionFilter_def showLoading_def)
  have p: "populateAmenitiesFilter (populateRegionFilter st1) = (st2, None)"
    using populateAmenitiesFilter_ok(1) [of "populateRegionFilter st1"] assms h1
    by (simp add: prod_eq_iff st2_def)
  have f2: "filteredHotels (renderDestinosPopulares st2) = R"
    using populateAmenitiesFilter_ok(3) [of "populateRegionFilter st1"] assms h1
    by (simp add: renderDestinosPopulares_def st2_def)
  have "snd (renderHotels (renderDestinosPopulares st2)) = None"
    using assms f2 by (intro renderHotels_ok) simp
  then have r: "renderHotels (renderDestinosPopulares st2) = (st3, None)"
    by (simp add: prod_eq_iff st3_def)
  have "init (Hotels R) st = st3"
    by (simp add: init_def l p r)
  then show ?thesis
    by (simp add: st3_def st2_def st1_def)
qed

text \<open>
  C10. In the full variant a successful load makes the filtered subset the whole loaded
  set. When the records are well formed (amenities present, rating at most 5), \<open>init\<close>
  ends with the loaded set as filtered subset, the default maximum price 2500 in the
  filters, one card per loaded record in the grid and the count of the whole set in the
  header: the default configuration is not applied. A record whose nightly rate exceeds
  2500 is in that first filtered subset and is no longer in it after the next
  \<open>applyFilters\<close>, whatever the filters then are, as long as the maximum price is at
  most 2500.
\<close>

theorem initial_render_shows_all:
  assumes "\<forall>h\<in>set R. amenities h \<noteq> None \<and> rating h \<le> 5"
  shows "filteredHotels (fst (loadHotels (Hotels R) (constructor page))) = R
     \<and> (let st = init (Hotels R) (constructor page)
        in hotels st = R \<and> filteredHotels st = R
         \<and> filters st = \<lparr>f_search = [], f_region = [], f_maxPrice = 2500, f_amenities = []\<rparr>
         \<and> mapE createHotelCard R = Inr (hotelsGrid st)
         \<and> resultsCount st = countText (length R)
         \<and> (\<forall>h\<in>set R. nightlyRate h > 2500 \<longrightarrow>
               h \<in> set (filteredHotels st)
               \<and> h \<notin> set (filteredHotels (fst (applyFilters st)))
               \<and> (\<forall>f. f_maxPrice f \<le> 2500 \<longrightarrow>
                     h \<notin> set (filteredHotels (fst (applyFilters (st\<lparr>filters := f\<rparr>)))))))"
proof -
  let ?st1 = "fst (loadHotels (Hotels R) (constructor page))"
  let ?st2 = "fst (populateAmenitiesFilter (populateRegionFilter ?st1))"
  let ?st3 = "renderDestinosPopulares ?st2"
  let ?st = "init (Hotels R) (constructor page)"
  have i: "?st = fst (renderHotels ?st3)"
    using assms by (rule init_success)
  have h1: "hotels (populateRegionFilter ?st1) = R"
    "filteredHotels (populateRegionFilter ?st1) = R"
    "filters (populateRegionFilter ?st1)
       = \<lparr>f_search = [], f_region = [], f_maxPrice = 2500, f_amenities = []\<rparr>"
    by (simp_all add: loadHotels_def Let_def populateRegionFilter_def showLoading_def
        constructor_def)
  have a: "\<forall>h\<in>set (hotels (populateRegionFilter ?st1)). amenities h \<noteq> None"
    using assms h1 by simp
  have h3: "hotels ?st3 = R" "filteredHotels ?st3 = R"
    "filters ?st3 = \<lparr>f_search = [], f_region = [], f_maxPrice = 2500, f_amenities = []\<rparr>"
    using populateAmenitiesFilter_ok(2,3,4) [OF a] h1
    by (simp_all add: renderDestinosPopulares_def)
  have s: "hotels ?st = R" "filteredHotels ?st = R"
    "filters ?st = \<lparr>f_search = [], f_region = [], f_maxPrice = 2500, f_amenities = []\<rparr>"
    "resultsCount ?st = countText (length R)"
    by (simp_all add: i renderHotels_keeps renderHotels_header h3)
  have g: "mapE createHotelCard R = Inr (hotelsGrid ?st)"
    using renderHotels_ok(2) [of ?st3] assms h3 by (simp add: i)
  have af: "filteredHotels (fst (applyFilters (?st\<lparr>filters := f\<rparr>)))
        = filter (\<lambda>h. matches h f = Inr True) R" for f
    using applyFilters_filtered(1) [of "?st\<lparr>filters := f\<rparr>"] assms by (simp add: s)
  have gone: "h \<notin> set (filteredHotels (fst (applyFilters (?st\<lparr>filters := f\<rparr>))))"
    if "nightlyRate h > 2500" "f_maxPrice f \<le> 2500" for h f
    using that by (simp add: af matches_def)
  have same: "?st\<lparr>filters := filters ?st\<rparr> = ?st"
    by simp
  have gone0: "h \<notin> set (filteredHotels (fst (applyFilters ?st)))" if "nightlyRate h > 2500" for h
    using gone [OF that, of "filters ?st"] by (simp add: s(3) del: same) (simp add: s(3) [symmetric])
  have first: "filteredHotels ?st1 = R"
    by (simp add: loadHotels_def Let_def showLoading_def)
  show ?thesis
    using gone gone0 by (simp add: Let_def first s g)
qed

theorem initial_render_shows_all_witness:
  "hotel3000 \<in> set (filteredHotels (init (Hotels [hotel100, hotel3000]) (constructor blankPage)))
   \<and> hotel3000 \<notin> set (filteredHotels (fst (applyFilters
        (init (Hotels [hotel100, hotel3000]) (constructor blankPage)))))
   \<and> resultsCount (init (Hotels [hotel100, hotel3000]) (constructor blankPage))
       = ''2 hoteles encontrados''"
  using initial_render_shows_all [where R = "[hotel100, hotel3000]" and page = blankPage]
  by (simp add: Let_def hotel100_def hotel3000_def sampleHotel_def countText_def natToString_2)

section \<open>Escaping in the card markup\<close>

lemma createHotelCard_xssHotel:
  "createHotelCard xssHotel = Inr (cardMarkup xssHotel [''spa'', ''wifi''])"
  by (simp add: createHotelCard_def xssHotel_def sampleHotel_def)

text \<open>Whatever the record, the card of the full variant carries the name and the
  location in the \<open>alt\<close> attribute as they are.\<close>

lemma card_alt_attribute_verbatim:
  assumes "createHotelCard h = Inr m"
  shows \<open>sublist (''alt="'' @ name h @ '' - '' @ location h @ ''"'') m\<close>
proof -
  from assms obtain ams where m: "m = cardMarkup h ams"
    by (auto simp: createHotelCard_def split: if_splits option.splits)
  have \<open>\<exists>pre post.
          cardMarkup h ams = pre @ (''alt="'' @ name h @ '' - '' @ location h @ ''"'') @ post\<close>
    unfolding cardMarkup_def
    apply (rule exI [where x = \<open>''\<newline>''
       @ ''            <div class="hotel-image">\<newline>''
       @ ''                <img \<newline>''
       @ ''                    src="data:image/svg+xml,%3Csvg xmlns='http://www.w3.org/2000/svg' width='800' height='600'%3E%3Crect width='100%25' height='100%25' fill='%23f0f2f5'/%3E%3C/svg%3E"\<newline>''
       @ ''                    data-src="''
       @ image_url h
       @ ''" \<newline>''
       @ ''                    ''\<close>])
    apply (rule exI)
    apply (simp only: append_assoc append_Cons append_Nil)
    done
  then show ?thesis
    unfolding m sublist_def by blast
qed

text \<open>
  C6. The full variant's card interpolates the name and the location into the \<open>alt\<close>
  attribute of the image as they are: for a record whose name closes the attribute and
  opens a script element, the markup of the card contains that name unescaped.
\<close>

theorem card_alt_attribute_is_raw:
  \<open>map_sum id (sublist ''alt=""><script>alert(1)</script> - Santiago"'')
     (createHotelCard xssHotel) = Inr True\<close>
proof -
  have \<open>''alt="'' @ name xssHotel @ '' - '' @ location xssHotel @ ''"''
      = ''alt=""><script>alert(1)</script> - Santiago"''\<close>
    by (simp add: xssHotel_def sampleHotel_def)
  with card_alt_attribute_verbatim [OF createHotelCard_xssHotel]
  have \<open>sublist ''alt=""><script>alert(1)</script> - Santiago"''
          (cardMarkup xssHotel [''spa'', ''wifi''])\<close>
    by (simp only:)
  then show ?thesis
    by (simp only: createHotelCard_xssHotel map_sum.simps)
qed

section \<open>Properties of the debounced channels\<close>

lemma renderHotels_timers:
  "searchDebounceTimer (fst (renderHotels st)) = searchDebounceTimer st"
  "filterDebounceTimer (fst (renderHotels st)) = filterDebounceTimer st"
  "filters (fst (renderHotels st)) = filters st"
  by (simp_all add: renderHotels_def Let_def showEmptyState_def announceResults_def
      split: sum.splits)

lemma applyFilters_timers:
  "searchDebounceTimer (fst (applyFilters st)) = searchDebounceTimer st"
  "filterDebounceTimer (fst (applyFilters st)) = filterDebounceTimer st"
  "filters (fst (applyFilters st)) = filters st"
  by (simp_all add: applyFilters_def renderHotels_timers split: sum.splits)
















section \<open>Properties of the lazy loader\<close>

lemma loadImage_fields:
  "images (loadImage j s) = images s"
  "observing (loadImage j s) = observing s"
  "reported (loadImage j s) = reported s"
  "hasObserver (loadImage j s) = hasObserver s"
  "requests (loadImage j s) =
     requests s @ (if j < length (images s) \<and> data_src (images s ! j) \<noteq> []
                   then [(j, data_src (images s ! j))] else [])"
  by (simp_all add: loadImage_def)

lemma unobserve_fields:
  "images (unobserve j s) = images s"
  "observing (unobserve j s) = filter (\<lambda>k. k \<noteq> j) (observing s)"
  "reported (unobserve j s) = reported s"
  "hasObserver (unobserve j s) = hasObserver s"
  "requests (unobserve j s) = requests s"
  by (auto simp: unobserve_def removeAll_filter_not_eq intro: filter_cong)

lemma observerCallback_Nil: "observerCallback [] s = s"
  by (simp add: observerCallback_def)

lemma observerCallback_Cons:
  "observerCallback ((j, b) # es) s =
     observerCallback es (if b then unobserve j (loadImage j s) else s)"
  by (simp add: observerCallback_def)

lemma observerCallback_same:
  "images (observerCallback es s) = images s"
  "reported (observerCallback es s) = reported s"
  "hasObserver (observerCallback es s) = hasObserver s"
proof (induction es arbitrary: s)
  case Nil
  { case 1 show ?case by (simp add: observerCallback_Nil) }
  { case 2 show ?case by (simp add: observerCallback_Nil) }
  { case 3 show ?case by (simp add: observerCallback_Nil) }
next
  case (Cons e es)
  { case 1 show ?case
      by (cases e) (simp add: observerCallback_Cons Cons.IH unobserve_fields loadImage_fields) }
  { case 2 show ?case
      by (cases e) (simp add: observerCallback_Cons Cons.IH unobserve_fields loadImage_fields) }
  { case 3 show ?case
      by (cases e) (simp add: observerCallback_Cons Cons.IH unobserve_fields loadImage_fields) }
qed

lemma observerCallback_observing:
  "observing (observerCallback es s) = filter (\<lambda>j. (j, True) \<notin> set es) (observing s)"
proof (induction es arbitrary: s)
  case Nil
  then show ?case by (simp add: observerCallback_Nil)
next
  case (Cons e es)
  obtain j b where e: "e = (j, b)" by (cases e)
  show ?case
    by (cases b) (auto simp: e observerCallback_Cons Cons.IH unobserve_fields loadImage_fields
        intro: filter_cong)
qed

text \<open>The fetch that an entry starts.\<close>

lemma observerCallback_requests:
  "requests (observerCallback es s) =
     requests s @ concat (map (\<lambda>e. if snd e \<and> fst e < length (images s)
                                        \<and> data_src (images s ! fst e) \<noteq> []
                                     then [(fst e, data_src (images s ! fst e))] else []) es)"
proof (induction es arbitrary: s)
  case Nil
  then show ?case by (simp add: observerCallback_Nil)
next
  case (Cons e es)
  obtain j b where e: "e = (j, b)" by (cases e)
  show ?case
    by (cases b) (simp_all add: e observerCallback_Cons Cons.IH unobserve_fields loadImage_fields
        cong: if_cong)
qed


lemma frame_same:
  "images (frame inside s) = images s"
  "hasObserver (frame inside s) = hasObserver s"
  by (simp_all add: frame_def Let_def observerCallback_same)

lemma frame_observing:
  "observing (frame inside s) =
     filter (\<lambda>j. \<not> (inside j \<and> reported s j \<noteq> Some True)) (observing s)"
proof -
  have "filter (\<lambda>j. (j, True) \<notin> set (map (\<lambda>i. (i, inside i))
                        (filter (\<lambda>i. reported s i \<noteq> Some (inside i)) (observing s))))
          (observing s)
      = filter (\<lambda>j. \<not> (inside j \<and> reported s j \<noteq> Some True)) (observing s)"
    by (rule filter_cong) auto
  moreover have "filter (\<lambda>i. reported s i \<noteq> Some (inside i)) (observing s) = []
      \<Longrightarrow> filter (\<lambda>j. \<not> (inside j \<and> reported s j \<noteq> Some True)) (observing s) = observing s"
    by (auto simp: filter_empty_conv filter_id_conv)
  ultimately show ?thesis
    by (simp add: frame_def Let_def observerCallback_observing)
qed

lemma frame_reported:
  "reported (frame inside s) j =
     (if j \<in> set (observing s) \<and> reported s j \<noteq> Some (inside j) then Some (inside j)
      else reported s j)"
proof -
  have m: "j \<in> set (map fst (map (\<lambda>i. (i, inside i))
                 (filter (\<lambda>i. reported s i \<noteq> Some (inside i)) (observing s))))
        \<longleftrightarrow> j \<in> set (observing s) \<and> reported s j \<noteq> Some (inside j)"
    by (auto simp: comp_def)
  have e: "filter (\<lambda>i. reported s i \<noteq> Some (inside i)) (observing s) = []
       \<Longrightarrow> \<not> (j \<in> set (observing s) \<and> reported s j \<noteq> Some (inside j))"
    by (auto simp: filter_empty_conv)
  show ?thesis
    unfolding frame_def Let_def
    by (simp only: observerCallback_same m if_distrib [of reported] lazy.simps split: if_splits)
      (use e in auto)
qed

lemma frame_requests:
  "requests (frame inside s) =
     requests s @ concat (map (\<lambda>j. if inside j \<and> j < length (images s)
                                        \<and> data_src (images s ! j) \<noteq> []
                                     then [(j, data_src (images s ! j))] else [])
                            (filter (\<lambda>i. reported s i \<noteq> Some (inside i)) (observing s)))"
  by (simp add: frame_def Let_def observerCallback_requests comp_def cong: if_cong)

lemma lazyInv_init: "lazyInv (setupImageObserver True)"
  by (simp add: lazyInv_def setupImageObserver_def)

lemma registerImage_observed:
  assumes "lazyInv s"
  shows "registerImage im s =
     s\<lparr>images := images s @ [im], observing := observing s @ [length (images s)],
       reported := (reported s)(length (images s) := None)\<rparr>"
proof -
  have "length (images s) \<notin> set (observing s)"
    using assms by (auto simp: lazyInv_def list_all_iff)
  then show ?thesis
    using assms by (simp add: registerImage_def Let_def observe_def lazyInv_def)
qed

lemma lazyInv_registerImage:
  assumes "lazyInv s"
  shows "lazyInv (registerImage im s)"
  using assms unfolding registerImage_observed [OF assms]
  by (auto simp: lazyInv_def list_all_iff)

lemma lazyInv_frame:
  assumes "lazyInv s"
  shows "lazyInv (frame inside s)"
proof -
  have d: "distinct (observing (frame inside s))"
    using assms by (simp add: frame_observing lazyInv_def)
  have o: "list_all (\<lambda>j. j < length (images (frame inside s))
                        \<and> reported (frame inside s) j \<noteq> Some True) (observing (frame inside s))"
    using assms
    by (auto simp: frame_observing frame_same frame_reported lazyInv_def list_all_iff)
  have r: "list_all (\<lambda>r. fst r < length (images (frame inside s))) (requests (frame inside s))"
    using assms
    by (auto simp: frame_requests frame_same lazyInv_def list_all_iff split: if_splits)
  show ?thesis
    using assms d o r by (simp add: lazyInv_def frame_same)
qed

lemma lazyInv_step:
  assumes "lazyInv s"
  shows "lazyInv (lazyStep e s)"
proof (cases e)
  case (NewCard im)
  then show ?thesis using assms by (simp add: lazyStep_def lazyInv_registerImage)
next
  case (Frame inside)
  then show ?thesis using assms by (simp add: lazyStep_def lazyInv_frame)
next
  case (ImageLoaded j url)
  then show ?thesis using assms by (simp add: lazyStep_def tempImg_onload_def lazyInv_def)
next
  case (ImageFailed j)
  then show ?thesis using assms by (simp add: lazyStep_def tempImg_onerror_def lazyInv_def)
qed

lemma lazyInv_run:
  "lazyInv s \<Longrightarrow> lazyInv (runLazy es s)"
  unfolding runLazy_def by (induction es arbitrary: s) (simp_all add: lazyInv_step)

lemma filter_target_concat:
  assumes "distinct xs"
  shows "filter (\<lambda>r. fst r = i) (concat (map (\<lambda>j. if P j then [(j, d j)] else []) xs))
       = (if i \<in> set xs \<and> P i then [(i, d i)] else [])"
  using assms by (induction xs) auto

lemma requestsFor_frame:
  assumes "lazyInv s"
  shows "requestsFor i (frame inside s) =
     requestsFor i s @
       (if i \<in> set (observing s) \<and> inside i \<and> data_src (images s ! i) \<noteq> []
        then [data_src (images s ! i)] else [])"
proof -
  have d: "distinct (filter (\<lambda>j. reported s j \<noteq> Some (inside j)) (observing s))"
    using assms by (simp add: lazyInv_def)
  have o: "i \<in> set (observing s) \<Longrightarrow> i < length (images s) \<and> reported s i \<noteq> Some True"
    using assms by (auto simp: lazyInv_def list_all_iff)
  show ?thesis
    unfolding requestsFor_def frame_requests filter_append map_append
      filter_target_concat [OF d]
    using o by auto
qed

text \<open>The state of one placeholder during a session: its URL, its fetches so far and
  whether it is still observed, given whether a frame has had it within the margin.\<close>

lemma placeholder_step:
  assumes "lazyInv s" and "i < length (images s)" and "data_src (images s ! i) = u" and "u \<noteq> []"
    and "requestsFor i s = (if b then [u] else [])" and "i \<in> set (observing s) \<longleftrightarrow> \<not> b"
  shows "i < length (images (lazyStep e s))
       \<and> data_src (images (lazyStep e s) ! i) = u
       \<and> requestsFor i (lazyStep e s)
           = (if b \<or> (case e of Frame inside \<Rightarrow> inside i | _ \<Rightarrow> False) then [u] else [])
       \<and> (i \<in> set (observing (lazyStep e s))
           \<longleftrightarrow> \<not> (b \<or> (case e of Frame inside \<Rightarrow> inside i | _ \<Rightarrow> False)))"
proof (cases e)
  case (NewCard im)
  show ?thesis
    using assms
    by (auto simp: NewCard lazyStep_def registerImage_observed [OF assms(1)] requestsFor_def
        nth_append)
next
  case (Frame inside)
  have o: "i \<in> set (observing s) \<Longrightarrow> reported s i \<noteq> Some True"
    using assms(1) by (auto simp: lazyInv_def list_all_iff)
  show ?thesis
    using assms o
    by (auto simp: Frame lazyStep_def frame_same requestsFor_frame frame_observing)
next
  case (ImageLoaded j url)
  show ?thesis
    using assms
    by (auto simp: ImageLoaded lazyStep_def tempImg_onload_def requestsFor_def nth_list_update)
next
  case (ImageFailed j)
  show ?thesis
    using assms
    by (auto simp: ImageFailed lazyStep_def tempImg_onerror_def requestsFor_def nth_list_update)
qed

lemma everInside_Cons:
  "everInside i (e # es) \<longleftrightarrow> (case e of Frame inside \<Rightarrow> inside i | _ \<Rightarrow> False) \<or> everInside i es"
  by (simp add: everInside_def)

lemma placeholder_run:
  assumes "lazyInv s" and "i < length (images s)" and "data_src (images s ! i) = u" and "u \<noteq> []"
    and "requestsFor i s = (if b then [u] else [])" and "i \<in> set (observing s) \<longleftrightarrow> \<not> b"
  shows "requestsFor i (runLazy es s) = (if b \<or> everInside i es then [u] else [])
       \<and> (i \<in> set (observing (runLazy es s)) \<longleftrightarrow> \<not> (b \<or> everInside i es))"
  using assms
proof (induction es arbitrary: s b)
  case Nil
  then show ?case by (simp add: runLazy_def everInside_def)
next
  case (Cons e es)
  let ?b = "b \<or> (case e of Frame inside \<Rightarrow> inside i | _ \<Rightarrow> False)"
  note st = placeholder_step [OF Cons.prems, of e]
  have "requestsFor i (runLazy es (lazyStep e s)) = (if ?b \<or> everInside i es then [u] else [])
       \<and> (i \<in> set (observing (runLazy es (lazyStep e s))) \<longleftrightarrow> \<not> (?b \<or> everInside i es))"
    using st Cons.prems(1,4) by (intro Cons.IH lazyInv_step) simp_all
  then show ?case
    by (simp add: runLazy_def everInside_Cons disj_assoc)
qed

text \<open>
  C8. Take any state the loader reaches with an observer, register a placeholder whose
  \<open>data-src\<close> is not empty, and let any session follow: frames in which the
  placeholder is inside or outside the margin, further cards, images that finish or
  fail. At every moment of the session the fetches started for the placeholder are none
  if no frame so far has had it within the margin and exactly one, of its \<open>data-src\<close>,
  otherwise, however often it has crossed the margin; and it is still observed exactly
  as long as no fetch has been started.
\<close>

theorem lazy_image_fetched_once:
  assumes "data_src im \<noteq> []"
  shows "(let s0 = runLazy before (setupImageObserver True);
            i = length (images s0)
        in \<forall>n. (let s = runLazy (take n after) (registerImage im s0)
                in requestsFor i s
                     = (if everInside i (take n after) then [data_src im] else [])
                   \<and> (i \<in> set (observing s) \<longleftrightarrow> \<not> everInside i (take n after))))"
proof -
  define s0 where "s0 = runLazy before (setupImageObserver True)"
  define i where "i = length (images s0)"
  have inv0: "lazyInv s0"
    unfolding s0_def by (intro lazyInv_run lazyInv_init)
  have r: "registerImage im s0 =
     s0\<lparr>images := images s0 @ [im], observing := observing s0 @ [i],
       reported := (reported s0)(i := None)\<rparr>"
    unfolding i_def by (rule registerImage_observed [OF inv0])
  have inv1: "lazyInv (registerImage im s0)"
    using inv0 by (rule lazyInv_registerImage)
  have none: "requestsFor i (registerImage im s0) = []"
    using inv0 by (auto simp: r requestsFor_def lazyInv_def list_all_iff i_def filter_empty_conv)
  have "requestsFor i (runLazy es (registerImage im s0))
          = (if False \<or> everInside i es then [data_src im] else [])
       \<and> (i \<in> set (observing (runLazy es (registerImage im s0)))
           \<longleftrightarrow> \<not> (False \<or> everInside i es))" for es
    using inv1 assms none by (intro placeholder_run) (simp_all add: r i_def)
  then show ?thesis
    by (simp add: Let_def s0_def [symmetric] i_def [symmetric])
qed

theorem lazy_image_fetched_once_witness:
  "requestsFor 1
     (runLazy [Frame (\<lambda>i. False), Frame (\<lambda>i. True), ImageLoaded 1 (data_src sampleImg),
               Frame (\<lambda>i. False), Frame (\<lambda>i. True)]
        (registerImage sampleImg (runLazy [NewCard sampleImg] (setupImageObserver True))))
   = [''https://example.org/casa-sur.jpg'']
   \<and> requestsFor 1
     (runLazy [Frame (\<lambda>i. False)]
        (registerImage sampleImg (runLazy [NewCard sampleImg] (setupImageObserver True))))
   = []"
proof -
  have l: "length (images (runLazy [NewCard sampleImg] (setupImageObserver True))) = 1"
    by (simp add: runLazy_def lazyStep_def registerImage_def Let_def observe_def
        setupImageObserver_def)
  have d: "data_src sampleImg \<noteq> []"
    by (simp add: sampleImg_def)
  note t = lazy_image_fetched_once [OF d, of "[NewCard sampleImg]"
      "[Frame (\<lambda>i. False), Frame (\<lambda>i. True), ImageLoaded 1 (data_src sampleImg),
        Frame (\<lambda>i. False), Frame (\<lambda>i. True)]"]
  have 5: "requestsFor 1
     (runLazy [Frame (\<lambda>i. False), Frame (\<lambda>i. True), ImageLoaded 1 (data_src sampleImg),
               Frame (\<lambda>i. False), Frame (\<lambda>i. True)]
        (registerImage sampleImg (runLazy [NewCard sampleImg] (setupImageObserver True))))
   = [''https://example.org/casa-sur.jpg'']"
    using t [unfolded Let_def l, THEN spec, of 5]
    by (simp add: everInside_def) (simp add: sampleImg_def)
  have 1: "requestsFor 1
     (runLazy [Frame (\<lambda>i. False)]
        (registerImage sampleImg (runLazy [NewCard sampleImg] (setupImageObserver True))))
   = []"
    using t [unfolded Let_def l, THEN spec, of 1]
    by (simp add: everInside_def)
  from 5 1 show ?thesis by simp
qed

end
